theory Spec2Isabelle
  imports Main "HOL-Library.Sublist"
begin

section \<open>Data model (shared/schema.ts)\<close>

text \<open>
  The tables of the registration store, as the schema declares them. A nullable column
  is an \<open>option\<close>; a timestamp is the number of milliseconds it denotes. Strings are
  byte strings (the UTF-8 encoding of the JavaScript string).
\<close>

type_synonym timestamp = nat

datatype category = SOFTWARE | HARDWARE

datatype status = PENDING | VERIFIED | REJECTED

text \<open>A row of \<open>teams\<close>. The column \<open>id\<close> is named \<open>id_col\<close> here.\<close>

record team =
  id_col :: string
  teamName :: string
  category :: category
  projectTitle :: string
  projectSummary :: string
  collegeName :: string
  mentorName :: "string option"
  mentorEmail :: "string option"
  contactPhone :: string
  contactEmail :: string
  memberCount :: int
  paymentProofUrl :: string
  extraDocUrl :: "string option"
  status :: status
  verificationNote :: "string option"
  qrCodeUrl :: "string option"
  verifiedAt :: "timestamp option"
  verifiedBy :: "string option"
  createdAt :: timestamp
  updatedAt :: timestamp

text \<open>
  A row of \<open>members\<close> and a row of \<open>audit_logs\<close>, without the two columns the database
  fills in by itself (\<open>id\<close>, \<open>created_at\<close>). Their \<open>teamId\<close> columns are named
  \<open>m_teamId\<close> and \<open>a_teamId\<close>.
\<close>

record member =
  m_teamId :: string
  fullName :: string
  email :: string
  year :: string
  department :: string

record auditLog =
  a_teamId :: string
  action :: string
  performedBy :: string
  details :: "string option"

text \<open>One message posted to the mail gateway by \<open>sendEmail\<close>.\<close>

record attachment =
  content :: string
  name :: string

record mail =
  to :: "string list"
  subject :: string
  htmlContent :: string
  attachments :: "attachment list"

text \<open>
  The state a request handler works on: the four tables, and the two traces of calls
  to the outside world that the handlers of this development make: the messages posted
  to the mail gateway (\<open>outbox\<close>, one entry for every post, whether the gateway accepts
  it or not) and the payloads handed to \<open>generateQRCode\<close> (\<open>qrCalls\<close>).
\<close>

record state =
  teams :: "team list"
  members :: "member list"
  auditLogs :: "auditLog list"
  eventSettings :: "(string \<times> string) list"
  outbox :: "mail list"
  qrCalls :: "string list"

section \<open>Storage (server/storage.ts)\<close>

text \<open>
  \<open>select().from(teams).where(eq(teams.id, id))\<close>, first row or \<open>undefined\<close>.
\<close>

definition getTeamById :: "state \<Rightarrow> string \<Rightarrow> team option" where
  "getTeamById s i = List.find (\<lambda>t. id_col t = i) (teams s)"

definition getMembersByTeamId :: "state \<Rightarrow> string \<Rightarrow> member list" where
  "getMembersByTeamId s i = filter (\<lambda>m. m_teamId m = i) (members s)"

text \<open>\<open>verifiedBy || "admin"\<close>: an absent or empty string is falsy.\<close>

definition verifiedBy_or_admin :: "string option \<Rightarrow> string" where
  "verifiedBy_or_admin v =
     (case v of None \<Rightarrow> ''admin'' | Some a \<Rightarrow> if a = [] then ''admin'' else a)"

text \<open>
  The object \<open>updates\<close> that \<open>updateTeamStatus\<close> builds, applied to one row. The two
  timestamps are the two evaluations of \<open>new Date()\<close>. The query builder leaves out of
  the \<open>SET\<close> clause every key whose value is \<open>undefined\<close>, so an absent note keeps
  the stored \<open>verificationNote\<close>.
\<close>

definition applyStatusUpdates ::
  "timestamp \<Rightarrow> timestamp \<Rightarrow> status \<Rightarrow> string option \<Rightarrow> string option \<Rightarrow> team \<Rightarrow> team" where
  "applyStatusUpdates now1 now2 st note vb t =
     (let t1 = t\<lparr>status := st,
                 verificationNote := (case note of None \<Rightarrow> verificationNote t | Some n \<Rightarrow> Some n),
                 updatedAt := now1\<rparr>
      in if st = VERIFIED
         then t1\<lparr>verifiedAt := Some now2, verifiedBy := Some (verifiedBy_or_admin vb)\<rparr>
         else t1)"

text \<open>
  \<open>update(teams).set(updates).where(eq(teams.id, id)).returning()\<close>: every row with
  that id is rewritten, the first rewritten row is returned.
\<close>

definition updateTeamStatus ::
  "timestamp \<Rightarrow> timestamp \<Rightarrow> state \<Rightarrow> string \<Rightarrow> status \<Rightarrow> string option \<Rightarrow> string option
     \<Rightarrow> team option \<times> state" where
  "updateTeamStatus now1 now2 s i st note vb =
     (let s' = s\<lparr>teams := map (\<lambda>t. if id_col t = i
                                     then applyStatusUpdates now1 now2 st note vb t else t)
                               (teams s)\<rparr>
      in (getTeamById s' i, s'))"

definition updateTeamQrCode :: "state \<Rightarrow> string \<Rightarrow> string \<Rightarrow> state" where
  "updateTeamQrCode s i url =
     s\<lparr>teams := map (\<lambda>t. if id_col t = i then t\<lparr>qrCodeUrl := Some url\<rparr> else t) (teams s)\<rparr>"

definition createAuditLog :: "state \<Rightarrow> string \<Rightarrow> string \<Rightarrow> string \<Rightarrow> string option \<Rightarrow> state" where
  "createAuditLog s i act by_whom det =
     s\<lparr>auditLogs := auditLogs s @
        [\<lparr>a_teamId = i, action = act, performedBy = by_whom, details = det\<rparr>]\<rparr>"

section \<open>JSON.stringify on the values the server builds\<close>

datatype json = JString string | JBool bool | JObject "(string \<times> json) list"

definition hexDigit :: "nat \<Rightarrow> char" where
  "hexDigit n = ''0123456789abcdef'' ! (n mod 16)"

text \<open>
  \<open>QuoteJSONString\<close>, one character at a time: the quote, the backslash and the
  control characters below U+0020 are escaped, everything else is copied.
\<close>

definition quoteJSONChar :: "char \<Rightarrow> string" where
  "quoteJSONChar c =
     (if c = CHR 0x22 then [CHR 0x5C, CHR 0x22]
      else if c = CHR 0x5C then [CHR 0x5C, CHR 0x5C]
      else if c = CHR 0x08 then [CHR 0x5C, CHR ''b'']
      else if c = CHR 0x0C then [CHR 0x5C, CHR ''f'']
      else if c = CHR 0x0A then [CHR 0x5C, CHR ''n'']
      else if c = CHR 0x0D then [CHR 0x5C, CHR ''r'']
      else if c = CHR 0x09 then [CHR 0x5C, CHR ''t'']
      else if of_char c < (32::nat)
        then [CHR 0x5C, CHR ''u'', CHR ''0'', CHR ''0'',
              hexDigit (of_char c div 16), hexDigit (of_char c)]
      else [c])"

definition quoteJSONString :: "string \<Rightarrow> string" where
  "quoteJSONString s = [CHR 0x22] @ concat (map quoteJSONChar s) @ [CHR 0x22]"

fun commaSep :: "string list \<Rightarrow> string" where
  "commaSep [] = []"
| "commaSep [x] = x"
| "commaSep (x # y # ys) = x @ '','' @ commaSep (y # ys)"

fun stringify :: "json \<Rightarrow> string" where
  "stringify (JString s) = quoteJSONString s"
| "stringify (JBool b) = (if b then ''true'' else ''false'')"
| "stringify (JObject kvs) =
     ''{'' @ commaSep (map (\<lambda>(k, v). quoteJSONString k @ '':'' @ stringify v) kvs) @ ''}''"

definition category_text :: "category \<Rightarrow> string" where
  "category_text c = (case c of SOFTWARE \<Rightarrow> ''SOFTWARE'' | HARDWARE \<Rightarrow> ''HARDWARE'')"

text \<open>
  The check-in payload of the verify branch:
  \<open>JSON.stringify({teamId: id, teamName: team.teamName, category: team.category, verified: true})\<close>.
\<close>

definition qrData :: "string \<Rightarrow> team \<Rightarrow> string" where
  "qrData i t =
     stringify (JObject [(''teamId'', JString i),
                         (''teamName'', JString (teamName t)),
                         (''category'', JString (category_text (category t))),
                         (''verified'', JBool True)])"

section \<open>The outside world\<close>

text \<open>The attributes \<open>generateICS\<close> passes to the calendar library.\<close>

record icsEvent =
  ev_start :: "nat list"
  ev_end :: "nat list"
  ev_title :: string
  ev_description :: string
  ev_location :: string
  ev_status :: string
  ev_busyStatus :: string
  ev_organizer :: "string \<times> string"

text \<open>
  What one request gets from outside the repository:
  \<^item> \<open>dateNow1\<close>, \<open>dateNow2\<close>: the two values of \<open>new Date()\<close> in \<open>updateTeamStatus\<close>;
  \<^item> \<open>qrUpload\<close>: \<open>QRCode.toDataURL\<close> followed by the upload to the image host,
    the \<open>secure_url\<close> or \<open>None\<close> when either of them throws;
  \<^item> \<open>createEvent\<close>: the calendar library, \<open>Inl\<close> its \<open>error\<close>, \<open>Inr\<close> its \<open>value\<close>;
  \<^item> \<open>toBase64\<close>: \<open>Buffer.from(_).toString("base64")\<close>;
  \<^item> \<open>brevoOk\<close>: whether the mail gateway answers the post with \<open>response.ok\<close>
    (\<open>False\<close> also when \<open>fetch\<close> itself throws).
  The database calls are taken to return.
\<close>

record env =
  dateNow1 :: timestamp
  dateNow2 :: timestamp
  qrUpload :: "string \<Rightarrow> string option"
  createEvent :: "icsEvent \<Rightarrow> string + string"
  toBase64 :: "string \<Rightarrow> string"
  brevoOk :: "mail \<Rightarrow> bool"

section \<open>Helpers of server/routes.ts\<close>

text \<open>
  \<open>sendEmail\<close>: one post to the gateway; \<open>True\<close> when it returns, \<open>False\<close> when it
  throws. \<open>attachments || []\<close> is the attachment list of the post.
\<close>

definition sendEmail ::
  "env \<Rightarrow> state \<Rightarrow> string list \<Rightarrow> string \<Rightarrow> string \<Rightarrow> attachment list option \<Rightarrow> bool \<times> state" where
  "sendEmail e s recipients subj html atts =
     (let m = \<lparr>to = recipients, subject = subj, htmlContent = html,
                attachments = (case atts of None \<Rightarrow> [] | Some as \<Rightarrow> as)\<rparr>
      in (brevoOk e m, s\<lparr>outbox := outbox s @ [m]\<rparr>))"

text \<open>\<open>generateQRCode\<close>: the uploaded image's URL, or \<open>None\<close> when it throws.\<close>

definition generateQRCode :: "env \<Rightarrow> state \<Rightarrow> string \<Rightarrow> string option \<times> state" where
  "generateQRCode e s d = (qrUpload e d, s\<lparr>qrCalls := qrCalls s @ [d]\<rparr>)"

definition icsAttributes :: "string \<Rightarrow> string \<Rightarrow> icsEvent" where
  "icsAttributes tName pTitle =
     \<lparr>ev_start = [2025, 11, 25, 9, 0],
      ev_end = [2025, 11, 25, 17, 0],
      ev_title = ''Innovate-X 2025 - Project Expo'',
      ev_description = ''Team: '' @ tName @ ''\<newline>Project: '' @ pTitle @
        ''\<newline>\<newline>Please arrive 30 minutes early for check-in and setup.'',
      ev_location = ''Main Auditorium, Your College'',
      ev_status = ''CONFIRMED'',
      ev_busyStatus = ''BUSY'',
      ev_organizer = (''Innovate-X Team'', ''organizer@innovatex.com'')\<rparr>"

definition generateICS :: "env \<Rightarrow> string \<Rightarrow> string \<Rightarrow> string" where
  "generateICS e tName pTitle =
     (case createEvent e (icsAttributes tName pTitle) of Inl err \<Rightarrow> [] | Inr v \<Rightarrow> v)"

subsection \<open>The two mail bodies\<close>

text \<open>
  The template literals, cut at their \<open>${...}\<close> holes; the line of the acceptance
  mail that holds the QR image is written out in \<open>acceptanceHtml\<close> itself.
\<close>

definition acceptanceHtml_1 :: string where
  \<open>acceptanceHtml_1 =
     ''\<newline>'' @
     ''          <h2>Congratulations! Your Team Has Been Verified '' @ [CHR 0xF0, CHR 0x9F, CHR 0x8E, CHR 0x89] @ ''</h2>\<newline>'' @
     ''          <p>Dear Team ''\<close>

definition acceptanceHtml_2 :: string where
  \<open>acceptanceHtml_2 =
     '',</p>\<newline>'' @
     ''          <p>We're excited to inform you that your registration for Innovate-X 2025 has been verified!</p>\<newline>'' @
     ''          <h3>Event Details:</h3>\<newline>'' @
     ''          <p><strong>Date:</strong> November 25, 2025</p>\<newline>'' @
     ''          <p><strong>Time:</strong> 9:00 AM - 5:00 PM</p>\<newline>'' @
     ''          <p><strong>Venue:</strong> Main Auditorium, Your College</p>\<newline>'' @
     ''          <h3>Your Team QR Code:</h3>\<newline>'' @
     ''          <p>Please bring this QR code on the event day for check-in:</p>\<newline>''\<close>

definition acceptanceHtml_3 :: string where
  \<open>acceptanceHtml_3 =
     ''          <h3>What to Bring:</h3>\<newline>'' @
     ''          <ul>\<newline>'' @
     ''            <li>Your project and required equipment</li>\<newline>'' @
     ''            <li>Team ID proof</li>\<newline>'' @
     ''            <li>This confirmation email and QR code</li>\<newline>'' @
     ''          </ul>\<newline>'' @
     ''          ''\<close>

definition acceptanceHtml_4 :: string where
  \<open>acceptanceHtml_4 =
     ''\<newline>'' @
     ''          <p>We've also attached a calendar invite (.ics file) - add it to your calendar so you don't miss the event!</p>\<newline>'' @
     ''          <p>See you at Innovate-X 2025!</p>\<newline>'' @
     ''          <p>Best regards,<br/>Innovate-X Team</p>\<newline>'' @
     ''        ''\<close>

definition rejectionHtml_1 :: string where
  \<open>rejectionHtml_1 =
     ''\<newline>'' @
     ''          <h2>Innovate-X 2025 Registration Update</h2>\<newline>'' @
     ''          <p>Dear Team ''\<close>

definition rejectionHtml_2 :: string where
  \<open>rejectionHtml_2 =
     '',</p>\<newline>'' @
     ''          <p>Thank you for your interest in Innovate-X 2025. Unfortunately, we are unable to accept your registration at this time.</p>\<newline>'' @
     ''          ''\<close>

definition rejectionHtml_3 :: string where
  \<open>rejectionHtml_3 =
     ''\<newline>'' @
     ''          <p>If you believe this is an error or have questions, please contact us at organizer@innovatex.edu</p>\<newline>'' @
     ''          <p>We appreciate your participation and hope to see you in future events.</p>\<newline>'' @
     ''          <p>Best regards,<br/>Innovate-X Team</p>\<newline>'' @
     ''        ''\<close>

text \<open>\<open>note ? `...${note}...` : ""\<close>: an absent or empty note is falsy.\<close>

definition noteBlock :: "string \<Rightarrow> string option \<Rightarrow> string" where
  "noteBlock label note =
     (case note of None \<Rightarrow> []
      | Some n \<Rightarrow> if n = [] then [] else ''<p><strong>'' @ label @ ''</strong> '' @ n @ ''</p>'')"

definition acceptanceHtml :: "string \<Rightarrow> string \<Rightarrow> string option \<Rightarrow> string" where
  \<open>acceptanceHtml tName qrUrl note =
     acceptanceHtml_1 @ tName @ acceptanceHtml_2 @
     ''          <img src="'' @ qrUrl @
     ''" alt="Team QR Code" style="width: 250px; height: 250px; border: 2px solid #00FF85; border-radius: 8px;"/>\<newline>'' @
     acceptanceHtml_3 @
     noteBlock ''Note from organizers:'' note @ acceptanceHtml_4\<close>

definition rejectionHtml :: "string \<Rightarrow> string option \<Rightarrow> string" where
  "rejectionHtml tName note =
     rejectionHtml_1 @ tName @ rejectionHtml_2 @ noteBlock ''Reason:'' note @ rejectionHtml_3"

definition acceptanceSubject :: string where
  "acceptanceSubject = [CHR 0xE2, CHR 0x9C, CHR 0x85] @ '' Team Verified - Innovate-X 2025''"

section \<open>PATCH /api/admin/teams/:id/status\<close>

datatype response = Response nat json

definition jsonMessage :: "string \<Rightarrow> json" where
  "jsonMessage m = JObject [(''message'', JString m)]"

definition jsonError :: "string \<Rightarrow> json" where
  "jsonError m = JObject [(''error'', JString m)]"

text \<open>
  The handler after \<open>requireAuth\<close>, \<open>csrfProtection\<close> and the parse of the body:
  \<open>i\<close> is \<open>req.params.id\<close>, \<open>st\<close> and \<open>note\<close> the parsed body, \<open>adminEmail\<close> the
  session's. An exception thrown inside the \<open>try\<close> ends the handler with the 500 answer
  and leaves what was done before it.
\<close>

definition decide ::
  "env \<Rightarrow> state \<Rightarrow> string \<Rightarrow> status \<Rightarrow> string option \<Rightarrow> string \<Rightarrow> response \<times> state" where
  "decide e s i st note adminEmail =
     (case getTeamById s i of
        None \<Rightarrow> (Response 404 (jsonError ''Team not found''), s)
      | Some team \<Rightarrow>
          let (updatedTeam, s1) =
                updateTeamStatus (dateNow1 e) (dateNow2 e) s i st note (Some adminEmail);
              s2 = createAuditLog s1 i
                     (if st = VERIFIED then ''TEAM_VERIFIED'' else ''TEAM_REJECTED'')
                     adminEmail note;
              ms = getMembersByTeamId s2 i
          in if st = VERIFIED then
               (case generateQRCode e s2 (qrData i team) of
                  (None, s3) \<Rightarrow> (Response 500 (jsonError ''Failed to update team status''), s3)
                | (Some qrUrl, s3) \<Rightarrow>
                    let s4 = updateTeamQrCode s3 i qrUrl;
                        icsContent = generateICS e (teamName team) (projectTitle team);
                        icsBase64 = toBase64 e icsContent;
                        emailRecipients = map email ms;
                        (sent, s5) =
                          sendEmail e s4 emailRecipients acceptanceSubject
                            (acceptanceHtml (teamName team) qrUrl note)
                            (Some [\<lparr>content = icsBase64, name = ''innovate-x-2025.ics''\<rparr>])
                    in if sent
                       then (Response 200 (jsonMessage ''Team status updated successfully''), s5)
                       else (Response 500 (jsonError ''Failed to update team status''), s5))
             else
               (let (sent, s3) =
                      sendEmail e s2 [contactEmail team] ''Innovate-X 2025 Registration Update''
                        (rejectionHtml (teamName team) note) None
                in if sent
                   then (Response 200 (jsonMessage ''Team status updated successfully''), s3)
                   else (Response 500 (jsonError ''Failed to update team status''), s3)))"

section \<open>The client's request function (client/src/lib/queryClient.ts)\<close>

text \<open>
  The argument \<open>data\<close> of \<open>apiRequest\<close>: \<open>None\<close> is a falsy value (no body is sent),
  \<open>FormData\<close> a form, \<open>JsonData\<close> any other value, given by its \<open>JSON.stringify\<close> text.
\<close>

datatype payload = FormData string | JsonData string

record request =
  req_method :: string
  req_url :: string
  req_headers :: "(string \<times> string) list"
  req_body :: "payload option"



text \<open>
  The module-level token, and the trace of the calls of \<open>fetch\<close>. The network answers a
  request knowing the earlier ones; \<open>None\<close> is a rejected \<open>fetch\<close>.
\<close>

record client =
  csrfToken :: "string option"
  fetched :: "request list"





definition requestHeaders :: "client \<Rightarrow> string \<Rightarrow> payload option \<Rightarrow> (string \<times> string) list" where
  "requestHeaders c method d =
     (case d of Some (JsonData _) \<Rightarrow> [(''Content-Type'', ''application/json'')] | _ \<Rightarrow> []) @
     (case csrfToken c of
        Some tok \<Rightarrow> if tok \<noteq> [] \<and> method \<noteq> ''GET'' then [(''X-CSRF-Token'', tok)] else []
      | None \<Rightarrow> [])"


text \<open>The request \<open>apiRequest\<close> hands to \<open>fetch\<close>, built from the current token.\<close>

definition requestOf :: "client \<Rightarrow> string \<Rightarrow> string \<Rightarrow> payload option \<Rightarrow> request" where
  "requestOf c method url d =
     \<lparr>req_method = method, req_url = url,
      req_headers = requestHeaders c method d, req_body = d\<rparr>"


section \<open>Auxiliary definitions and sample data\<close>

text \<open>
  The state \<open>s\<close> with the stored status of team \<open>i\<close> replaced by \<open>st0\<close>: used to say
  that a handler does not depend on the stored status.
\<close>

definition overwriteStatus :: "state \<Rightarrow> string \<Rightarrow> status \<Rightarrow> state" where
  "overwriteStatus s i st0 =
     s\<lparr>teams := map (\<lambda>x. if id_col x = i then x\<lparr>status := st0\<rparr> else x) (teams s)\<rparr>"


text \<open>
  The reading side of the check-in token, used to say that the token is the JSON text of
  its fields. \<open>readJSONString\<close> reads a JSON string literal from just after its opening
  quote, by the JSON grammar: it undoes the two-character escapes and the escapes of four
  hexadecimal digits (for code points below 128), refuses a raw control character, and returns the string
  together with what follows the closing quote.
\<close>

definition hexVal :: "char \<Rightarrow> nat option" where
  "hexVal c =
     (let n = (of_char c :: nat)
      in if 48 \<le> n \<and> n \<le> 57 then Some (n - 48)
         else if 97 \<le> n \<and> n \<le> 102 then Some (n - 87)
         else if 65 \<le> n \<and> n \<le> 70 then Some (n - 55)
         else None)"

definition escapeChar :: "char \<Rightarrow> char option" where
  "escapeChar e =
     (if e = CHR 0x22 then Some (CHR 0x22)
      else if e = CHR 0x5C then Some (CHR 0x5C)
      else if e = CHR ''/'' then Some (CHR ''/'')
      else if e = CHR ''b'' then Some (CHR 0x08)
      else if e = CHR ''f'' then Some (CHR 0x0C)
      else if e = CHR ''n'' then Some (CHR 0x0A)
      else if e = CHR ''r'' then Some (CHR 0x0D)
      else if e = CHR ''t'' then Some (CHR 0x09)
      else None)"

definition consResult :: "char \<Rightarrow> (string \<times> string) option \<Rightarrow> (string \<times> string) option" where
  "consResult c r = (case r of None \<Rightarrow> None | Some (s, rest) \<Rightarrow> Some (c # s, rest))"

fun readJSONString :: "string \<Rightarrow> (string \<times> string) option" where
  "readJSONString [] = None"
| "readJSONString (c # cs) =
     (if c = CHR 0x22 then Some ([], cs)
      else if c = CHR 0x5C then
        (case cs of
           [] \<Rightarrow> None
         | e # r \<Rightarrow>
             if e = CHR ''u'' then
               (case r of
                  h1 # h2 # h3 # h4 # r' \<Rightarrow>
                    (case (hexVal h1, hexVal h2, hexVal h3, hexVal h4) of
                       (Some a, Some b, Some c', Some d) \<Rightarrow>
                         if 4096 * a + 256 * b + 16 * c' + d < 128
                         then consResult (char_of (4096 * a + 256 * b + 16 * c' + d))
                                (readJSONString r')
                         else None
                     | _ \<Rightarrow> None)
                | _ \<Rightarrow> None)
             else (case escapeChar e of
                     None \<Rightarrow> None
                   | Some x \<Rightarrow> consResult x (readJSONString r)))
      else if of_char c < (32::nat) then None
      else consResult c (readJSONString cs))"

definition stripPrefix :: "string \<Rightarrow> string \<Rightarrow> string option" where
  "stripPrefix p s = (if take (length p) s = p then Some (drop (length p) s) else None)"

text \<open>
  The reader of a whole token: the object with the members \<open>teamId\<close>, \<open>teamName\<close>,
  \<open>category\<close> and \<open>verified: true\<close>, in this order and with nothing else.
\<close>

definition parseCheckInToken :: "string \<Rightarrow> (string \<times> string \<times> category) option" where
  \<open>parseCheckInToken tok =
     (case stripPrefix ''{"teamId":"'' tok of
        None \<Rightarrow> None
      | Some r1 \<Rightarrow>
          (case readJSONString r1 of
             None \<Rightarrow> None
           | Some (i, r2) \<Rightarrow>
               (case stripPrefix '',"teamName":"'' r2 of
                  None \<Rightarrow> None
                | Some r3 \<Rightarrow>
                    (case readJSONString r3 of
                       None \<Rightarrow> None
                     | Some (n, r4) \<Rightarrow>
                         if r4 = '',"category":"SOFTWARE","verified":true}''
                           then Some (i, n, SOFTWARE)
                         else if r4 = '',"category":"HARDWARE","verified":true}''
                           then Some (i, n, HARDWARE)
                         else None))))\<close>

text \<open>A character that \<open>JSON.stringify\<close> does not copy as it is.\<close>

definition needsEscape :: "char \<Rightarrow> bool" where
  "needsEscape c = (c = CHR 0x22 \<or> c = CHR 0x5C \<or> of_char c < (32::nat))"

text \<open>A freshly registered team of three, one member of another team, and settings.\<close>

definition team0 :: team where
  "team0 = \<lparr>id_col = ''t1'', teamName = ''Alpha'', category = SOFTWARE,
             projectTitle = ''Smart Campus'', projectSummary = ''A campus navigation aid'',
             collegeName = ''Your College'', mentorName = None, mentorEmail = None,
             contactPhone = ''9876543210'', contactEmail = ''lead@alpha.example'',
             memberCount = 3, paymentProofUrl = ''https://files.example/pay.png'',
             extraDocUrl = None, status = PENDING, verificationNote = None,
             qrCodeUrl = None, verifiedAt = None, verifiedBy = None,
             createdAt = 1000, updatedAt = 1000\<rparr>"

definition members0 :: "member list" where
  "members0 =
     [\<lparr>m_teamId = ''t1'', fullName = ''Asha'', email = ''asha@alpha.example'',
       year = ''3'', department = ''CSE''\<rparr>,
      \<lparr>m_teamId = ''t2'', fullName = ''Dev'', email = ''dev@beta.example'',
       year = ''2'', department = ''ECE''\<rparr>,
      \<lparr>m_teamId = ''t1'', fullName = ''Bala'', email = ''bala@alpha.example'',
       year = ''3'', department = ''CSE''\<rparr>,
      \<lparr>m_teamId = ''t1'', fullName = ''Chitra'', email = ''chitra@alpha.example'',
       year = ''4'', department = ''ISE''\<rparr>]"

definition settings0 :: "(string \<times> string) list" where
  "settings0 = [(''EVENT_DATE'', ''2026-01-15''), (''EVENT_TIME'', ''10:00''),
                (''EVENT_VENUE'', ''Hall B''), (''EVENT_ADDRESS'', ''1 Main Street'')]"

definition state0 :: state where
  "state0 = \<lparr>teams = [team0], members = members0,
              auditLogs = [\<lparr>a_teamId = ''t1'', action = ''TEAM_REGISTERED'',
                            performedBy = ''system'',
                            details = Some ''Team registered via website''\<rparr>],
              eventSettings = settings0, outbox = [], qrCalls = []\<rparr>"

text \<open>
  An outside world in which everything works; the calendar library is replaced by a
  rendering of the venue and the status, the base-64 encoder by the identity.
\<close>

definition env0 :: env where
  "env0 = \<lparr>dateNow1 = 5000, dateNow2 = 5001,
            qrUpload = (\<lambda>d. Some ''https://img.example/qr.png''),
            createEvent = (\<lambda>ev. Inr (ev_location ev @ '';'' @ ev_status ev)),
            toBase64 = (\<lambda>x. x),
            brevoOk = (\<lambda>m. True)\<rparr>"

text \<open>The same world with the mail gateway down.\<close>

definition env_mailDown :: env where
  "env_mailDown = env0\<lparr>brevoOk := (\<lambda>m. False)\<rparr>"

text \<open>
  A hardware team whose name holds a quote, a backslash, a line feed and the control
  character U+0001.
\<close>

definition teamQ :: team where
  "teamQ = team0\<lparr>id_col := ''t2'',
                  teamName := [CHR ''Q'', CHR 0x22, CHR ''u'', CHR 0x5C, CHR ''o'', CHR 0x0A,
                               CHR ''t'', CHR 0x01, CHR ''e''],
                  category := HARDWARE\<rparr>"

text \<open>The same world with the QR generation failing.\<close>

definition env_qrDown :: env where
  "env_qrDown = env0\<lparr>qrUpload := (\<lambda>d. None)\<rparr>"

text \<open>The sample state after a first verification, and a failing calendar library.\<close>

definition state1 :: state where
  "state1 = snd (decide env0 state0 ''t1'' VERIFIED (Some ''Welcome'') ''admin@example.org'')"




section \<open>Facts about the storage functions\<close>


lemma find_map_same_id:
  assumes "\<And>t. id_col (f t) = id_col t"
  shows "List.find (\<lambda>t. id_col t = i) (map (\<lambda>t. if id_col t = i then f t else t) ts)
         = map_option f (List.find (\<lambda>t. id_col t = i) ts)"
  using assms by (induction ts) auto

lemma map_no_match:
  "List.find (\<lambda>t. id_col t = i) ts = None \<Longrightarrow>
     map (\<lambda>x. if id_col x = i then f x else x) ts = ts"
  by (induction ts) (auto split: if_splits)

lemma id_col_applyStatusUpdates [simp]:
  "id_col (applyStatusUpdates n1 n2 st note vb t) = id_col t"
  by (simp add: applyStatusUpdates_def Let_def)

lemma status_applyStatusUpdates [simp]:
  "status (applyStatusUpdates n1 n2 st note vb t) = st"
  by (simp add: applyStatusUpdates_def Let_def)

lemma applyStatusUpdates_forgets_status:
  "applyStatusUpdates n1 n2 st note vb (x\<lparr>status := st0\<rparr>) = applyStatusUpdates n1 n2 st note vb x"
  by (cases "note") (simp_all add: applyStatusUpdates_def Let_def)

lemma qrData_status [simp]: "qrData i (t\<lparr>status := st0\<rparr>) = qrData i t"
  by (simp add: qrData_def)

lemma getTeamById_overwriteStatus:
  "getTeamById (overwriteStatus s i st0) i = map_option (\<lambda>x. x\<lparr>status := st0\<rparr>) (getTeamById s i)"
  by (simp add: overwriteStatus_def getTeamById_def
      find_map_same_id [where f = "\<lambda>x. x\<lparr>status := st0\<rparr>"])

section \<open>The runs of the status handler\<close>

text \<open>Verification with a QR code: the answer and every component of the final state.\<close>

lemma decide_VERIFIED_ok:
  assumes "getTeamById s i = Some t" and "qrUpload e (qrData i t) = Some url"
    and "m = \<lparr>to = map email (getMembersByTeamId s i), subject = acceptanceSubject,
               htmlContent = acceptanceHtml (teamName t) url note,
               attachments = [\<lparr>content = toBase64 e (generateICS e (teamName t) (projectTitle t)),
                               name = ''innovate-x-2025.ics''\<rparr>]\<rparr>"
  shows "fst (decide e s i VERIFIED note a) =
           (if brevoOk e m then Response 200 (jsonMessage ''Team status updated successfully'')
            else Response 500 (jsonError ''Failed to update team status''))"
    and "teams (snd (decide e s i VERIFIED note a)) =
           map (\<lambda>x. if id_col x = i
                     then (applyStatusUpdates (dateNow1 e) (dateNow2 e) VERIFIED note (Some a) x)
                            \<lparr>qrCodeUrl := Some url\<rparr>
                     else x) (teams s)"
    and "auditLogs (snd (decide e s i VERIFIED note a)) =
           auditLogs s @ [\<lparr>a_teamId = i, action = ''TEAM_VERIFIED'', performedBy = a, details = note\<rparr>]"
    and "outbox (snd (decide e s i VERIFIED note a)) = outbox s @ [m]"
    and "qrCalls (snd (decide e s i VERIFIED note a)) = qrCalls s @ [qrData i t]"
    and "members (snd (decide e s i VERIFIED note a)) = members s"
    and "eventSettings (snd (decide e s i VERIFIED note a)) = eventSettings s"
  using assms
  by (simp_all add: decide_def updateTeamStatus_def createAuditLog_def generateQRCode_def
      updateTeamQrCode_def sendEmail_def getMembersByTeamId_def Let_def o_def
      split: prod.splits cong: if_cong)

text \<open>Verification when \<open>generateQRCode\<close> throws.\<close>

lemma decide_VERIFIED_noqr:
  assumes "getTeamById s i = Some t" and "qrUpload e (qrData i t) = None"
  shows "fst (decide e s i VERIFIED note a) = Response 500 (jsonError ''Failed to update team status'')"
    and "teams (snd (decide e s i VERIFIED note a)) =
           map (\<lambda>x. if id_col x = i
                     then applyStatusUpdates (dateNow1 e) (dateNow2 e) VERIFIED note (Some a) x
                     else x) (teams s)"
    and "auditLogs (snd (decide e s i VERIFIED note a)) =
           auditLogs s @ [\<lparr>a_teamId = i, action = ''TEAM_VERIFIED'', performedBy = a, details = note\<rparr>]"
    and "outbox (snd (decide e s i VERIFIED note a)) = outbox s"
    and "qrCalls (snd (decide e s i VERIFIED note a)) = qrCalls s @ [qrData i t]"
  using assms
  by (simp_all add: decide_def updateTeamStatus_def createAuditLog_def generateQRCode_def
      Let_def split: prod.splits)

text \<open>The other branch (a rejection).\<close>

lemma decide_other_ok:
  assumes "getTeamById s i = Some t" and "st \<noteq> VERIFIED"
    and "m = \<lparr>to = [contactEmail t], subject = ''Innovate-X 2025 Registration Update'',
               htmlContent = rejectionHtml (teamName t) note, attachments = []\<rparr>"
  shows "fst (decide e s i st note a) =
           (if brevoOk e m then Response 200 (jsonMessage ''Team status updated successfully'')
            else Response 500 (jsonError ''Failed to update team status''))"
    and "teams (snd (decide e s i st note a)) =
           map (\<lambda>x. if id_col x = i
                     then applyStatusUpdates (dateNow1 e) (dateNow2 e) st note (Some a) x
                     else x) (teams s)"
    and "auditLogs (snd (decide e s i st note a)) =
           auditLogs s @ [\<lparr>a_teamId = i, action = ''TEAM_REJECTED'', performedBy = a, details = note\<rparr>]"
    and "outbox (snd (decide e s i st note a)) = outbox s @ [m]"
    and "qrCalls (snd (decide e s i st note a)) = qrCalls s"
    and "members (snd (decide e s i st note a)) = members s"
    and "eventSettings (snd (decide e s i st note a)) = eventSettings s"
  using assms
  by (simp_all add: decide_def updateTeamStatus_def createAuditLog_def
      sendEmail_def Let_def split: prod.splits)

text \<open>The row read back after each of the three runs.\<close>

lemma getTeamById_decide_VERIFIED:
  assumes "getTeamById s i = Some t" and "qrUpload e (qrData i t) = Some url"
  shows "getTeamById (snd (decide e s i VERIFIED note a)) i =
           Some ((applyStatusUpdates (dateNow1 e) (dateNow2 e) VERIFIED note (Some a) t)
                   \<lparr>qrCodeUrl := Some url\<rparr>)"
  using assms(1)
  by (simp add: decide_VERIFIED_ok(2) [OF assms refl] getTeamById_def
      find_map_same_id [where f = "\<lambda>x. (applyStatusUpdates (dateNow1 e) (dateNow2 e) VERIFIED note (Some a) x)\<lparr>qrCodeUrl := Some url\<rparr>"])

lemma getTeamById_decide_VERIFIED_noqr:
  assumes "getTeamById s i = Some t" and "qrUpload e (qrData i t) = None"
  shows "getTeamById (snd (decide e s i VERIFIED note a)) i =
           Some (applyStatusUpdates (dateNow1 e) (dateNow2 e) VERIFIED note (Some a) t)"
  using assms(1)
  by (simp add: decide_VERIFIED_noqr(2) [OF assms] getTeamById_def
      find_map_same_id [where f = "applyStatusUpdates (dateNow1 e) (dateNow2 e) VERIFIED note (Some a)"])

lemma getTeamById_decide_other:
  assumes "getTeamById s i = Some t" and "st \<noteq> VERIFIED"
  shows "getTeamById (snd (decide e s i st note a)) i =
           Some (applyStatusUpdates (dateNow1 e) (dateNow2 e) st note (Some a) t)"
  using assms(1)
  by (simp add: decide_other_ok(2) [OF assms refl] getTeamById_def
      find_map_same_id [where f = "applyStatusUpdates (dateNow1 e) (dateNow2 e) st note (Some a)"])

text \<open>What every run on an existing team does, whichever branch it takes.\<close>

lemma decide_status_written:
  assumes "getTeamById s i = Some t"
  shows "\<exists>t'. getTeamById (snd (decide e s i st note a)) i = Some t' \<and> status t' = st
           \<and> (st = VERIFIED \<longrightarrow> verifiedAt t' = Some (dateNow2 e)
                 \<and> verifiedBy t' = Some (verifiedBy_or_admin (Some a)))"
proof (cases "st = VERIFIED")
  case False
  then show ?thesis
    by (simp add: getTeamById_decide_other [OF assms False])
next
  case True
  show ?thesis
  proof (cases "qrUpload e (qrData i t)")
    case None
    show ?thesis
      by (simp add: True getTeamById_decide_VERIFIED_noqr [OF assms None]
          applyStatusUpdates_def Let_def)
  next
    case (Some url)
    show ?thesis
      by (simp add: True getTeamById_decide_VERIFIED [OF assms Some]
          applyStatusUpdates_def Let_def)
  qed
qed

lemma decide_audit_appended:
  assumes "getTeamById s i = Some t"
  shows "auditLogs (snd (decide e s i st note a)) =
           auditLogs s @ [\<lparr>a_teamId = i,
                           action = (if st = VERIFIED then ''TEAM_VERIFIED'' else ''TEAM_REJECTED''),
                           performedBy = a, details = note\<rparr>]"
proof (cases "st = VERIFIED")
  case False
  then show ?thesis
    by (simp add: decide_other_ok(3) [OF assms False refl])
next
  case True
  show ?thesis
  proof (cases "qrUpload e (qrData i t)")
    case None
    show ?thesis by (simp add: True decide_VERIFIED_noqr(3) [OF assms None])
  next
    case (Some url)
    show ?thesis by (simp add: True decide_VERIFIED_ok(3) [OF assms Some refl])
  qed
qed

lemma decide_qrCalls_VERIFIED:
  assumes "getTeamById s i = Some t"
  shows "qrCalls (snd (decide e s i VERIFIED note a)) = qrCalls s @ [qrData i t]"
proof (cases "qrUpload e (qrData i t)")
  case None
  show ?thesis by (rule decide_VERIFIED_noqr(5) [OF assms None])
next
  case (Some url)
  show ?thesis by (rule decide_VERIFIED_ok(5) [OF assms Some refl])
qed

lemma decide_ignores_stored_status:
  "decide e (overwriteStatus s i st0) i st note a = decide e s i st note a"
proof (cases "getTeamById s i")
  case None
  then have "overwriteStatus s i st0 = s"
    by (simp add: overwriteStatus_def getTeamById_def map_no_match)
  then show ?thesis by simp
next
  case (Some t)
  have g: "getTeamById (overwriteStatus s i st0) i = Some (t\<lparr>status := st0\<rparr>)"
    by (simp add: getTeamById_overwriteStatus Some)
  have tm: "map (\<lambda>x. if id_col x = i then applyStatusUpdates n1 n2 st note vb x else x)
              (teams (overwriteStatus s i st0))
            = map (\<lambda>x. if id_col x = i then applyStatusUpdates n1 n2 st note vb x else x) (teams s)"
    for n1 n2 vb
    by (simp add: overwriteStatus_def o_def applyStatusUpdates_forgets_status cong: if_cong)
  have u: "updateTeamStatus n1 n2 (overwriteStatus s i st0) i st note vb
           = updateTeamStatus n1 n2 s i st note vb" for n1 n2 vb
  proof -
    have "(overwriteStatus s i st0)\<lparr>teams := X\<rparr> = s\<lparr>teams := X\<rparr>" for X
      by (simp add: overwriteStatus_def)
    then show ?thesis
      by (simp only: updateTeamStatus_def Let_def tm)
  qed
  show ?thesis
    by (simp add: decide_def g Some u Let_def split: prod.splits option.splits)
qed


section \<open>Facts about the sample data\<close>

lemma state0_team: "getTeamById state0 ''t1'' = Some team0"
  by (simp add: getTeamById_def state0_def team0_def)

lemma env0_qr: "qrUpload env0 d = Some ''https://img.example/qr.png''"
  by (simp add: env0_def)

lemma env0_fields:
  "dateNow1 env0 = 5000" "dateNow2 env0 = 5001" "brevoOk env0 m" "toBase64 env0 x = x"
  "createEvent env0 ev = Inr (ev_location ev @ '';'' @ ev_status ev)"
  by (simp_all add: env0_def)

lemma env_mailDown_fields:
  "dateNow1 env_mailDown = 5000" "dateNow2 env_mailDown = 5001" "\<not> brevoOk env_mailDown m"
  by (simp_all add: env_mailDown_def env0_def)

lemma env_mailDown_qr: "qrUpload env_mailDown d = Some ''https://img.example/qr.png''"
  by (simp add: env_mailDown_def env0_def)

lemma env_qrDown_fields:
  "dateNow1 env_qrDown = 5000" "dateNow2 env_qrDown = 5001" "qrUpload env_qrDown d = None"
  by (simp_all add: env_qrDown_def env0_def)

lemma state0_members:
  "map email (getMembersByTeamId state0 ''t1'') =
     [''asha@alpha.example'', ''bala@alpha.example'', ''chitra@alpha.example'']"
  by (simp add: getMembersByTeamId_def state0_def members0_def)

lemma state0_fields:
  "auditLogs state0 = [\<lparr>a_teamId = ''t1'', action = ''TEAM_REGISTERED'',
                         performedBy = ''system'',
                         details = Some ''Team registered via website''\<rparr>]"
  "outbox state0 = []" "qrCalls state0 = []" "eventSettings state0 = settings0"
  by (simp_all add: state0_def)

lemma team0_fields:
  "teamName team0 = ''Alpha''" "category team0 = SOFTWARE" "status team0 = PENDING"
  "contactEmail team0 = ''lead@alpha.example''" "projectTitle team0 = ''Smart Campus''"
  "verificationNote team0 = None" "id_col team0 = ''t1''"
  by (simp_all add: team0_def)

lemma commaSep4: "commaSep [a, b, c, d] = a @ '','' @ b @ '','' @ c @ '','' @ d"
  by simp

lemma quote_plain:
  "quoteJSONString ''teamId'' = [CHR 0x22] @ ''teamId'' @ [CHR 0x22]"
  "quoteJSONString ''teamName'' = [CHR 0x22] @ ''teamName'' @ [CHR 0x22]"
  "quoteJSONString ''category'' = [CHR 0x22] @ ''category'' @ [CHR 0x22]"
  "quoteJSONString ''verified'' = [CHR 0x22] @ ''verified'' @ [CHR 0x22]"
  "quoteJSONString ''SOFTWARE'' = [CHR 0x22] @ ''SOFTWARE'' @ [CHR 0x22]"
  "quoteJSONString ''HARDWARE'' = [CHR 0x22] @ ''HARDWARE'' @ [CHR 0x22]"
  "quoteJSONString ''t1'' = [CHR 0x22] @ ''t1'' @ [CHR 0x22]"
  "quoteJSONString ''Alpha'' = [CHR 0x22] @ ''Alpha'' @ [CHR 0x22]"
  by (simp_all add: quoteJSONString_def quoteJSONChar_def)

lemma qrData_text:
  \<open>qrData i t =
     ''{"teamId":'' @ quoteJSONString i @
     '',"teamName":'' @ quoteJSONString (teamName t) @
     '',"category":"'' @ category_text (category t) @
     ''","verified":true}''\<close>
  by (cases "category t") (simp_all add: qrData_def category_text_def quote_plain)

section \<open>Reading the check-in token back\<close>

lemma hexVal_hexDigit_small: "m < 16 \<Longrightarrow> hexVal (hexDigit m) = Some m"
proof -
  assume "m < 16"
  then have "m = 0 \<or> m = 1 \<or> m = 2 \<or> m = 3 \<or> m = 4 \<or> m = 5 \<or> m = 6 \<or> m = 7
           \<or> m = 8 \<or> m = 9 \<or> m = 10 \<or> m = 11 \<or> m = 12 \<or> m = 13 \<or> m = 14 \<or> m = 15"
    by presburger
  then show ?thesis
    by (elim disjE) (simp_all add: hexDigit_def hexVal_def)
qed

lemma hexVal_hexDigit: "hexVal (hexDigit k) = Some (k mod 16)"
proof -
  have "hexDigit k = hexDigit (k mod 16)"
    by (simp add: hexDigit_def)
  then show ?thesis
    by (simp add: hexVal_hexDigit_small)
qed

lemma hexVal_zero: "hexVal (CHR ''0'') = Some 0"
  by (simp add: hexVal_def)

text \<open>One escaped character is read back as the character.\<close>

lemma read_quoteJSONChar:
  "readJSONString (quoteJSONChar c @ rest) = consResult c (readJSONString rest)"
proof -
  have lt: "(of_char c :: nat) < 32 \<Longrightarrow> (of_char c :: nat) div 16 mod 16 = of_char c div 16"
    by simp
  show ?thesis
    by (simp add: quoteJSONChar_def escapeChar_def hexVal_hexDigit hexVal_zero lt)
qed

lemma read_escaped_body:
  "readJSONString (concat (map quoteJSONChar s) @ CHR 0x22 # rest) = Some (s, rest)"
  by (induction s) (simp_all add: read_quoteJSONChar consResult_def)

lemma stripPrefix_append: "stripPrefix p (p @ r) = Some r"
  by (simp add: stripPrefix_def)

lemma qrData_layout:
  \<open>qrData i t =
     ''{"teamId":"'' @ (concat (map quoteJSONChar i) @ CHR 0x22 #
       ('',"teamName":"'' @ (concat (map quoteJSONChar (teamName t)) @ CHR 0x22 #
          (case category t of
             SOFTWARE \<Rightarrow> '',"category":"SOFTWARE","verified":true}''
           | HARDWARE \<Rightarrow> '',"category":"HARDWARE","verified":true}''))))\<close>
  by (cases "category t")
     (simp_all add: qrData_text quoteJSONString_def category_text_def)

lemma parse_qrData: "parseCheckInToken (qrData i t) = Some (i, teamName t, category t)"
  apply (subst qrData_layout)
  apply (simp only: parseCheckInToken_def stripPrefix_append read_escaped_body
      option.case prod.case)
  apply (cases "category t")
   apply simp_all
  done

lemma quoteJSONChar_unescaped: "\<not> needsEscape c \<Longrightarrow> quoteJSONChar c = [c]"
  unfolding needsEscape_def quoteJSONChar_def
  by (cases "c = CHR 0x08"; cases "c = CHR 0x0C"; cases "c = CHR 0x0A"; cases "c = CHR 0x0D";
      cases "c = CHR 0x09") auto

lemma quote_unescaped:
  "\<forall>c\<in>set s. \<not> needsEscape c \<Longrightarrow> concat (map quoteJSONChar s) = s"
  by (induction s) (simp_all add: quoteJSONChar_unescaped)

section \<open>The claims\<close>

subsection \<open>C3: an unknown team\<close>

text \<open>
  Claim C3. For every \<open>teamId\<close> that does not resolve to an existing team,
  \<open>decide\<close> answers NotFound (status 404, "Team not found") and has no side effect: the
  final state is the initial one, so no status is written, no audit entry is appended,
  no QR code is requested and no mail is posted.
\<close>

theorem decide_not_found:
  "getTeamById s i = None \<Longrightarrow>
     decide e s i st note adminEmail = (Response 404 (jsonError ''Team not found''), s)"
  by (simp add: decide_def)

theorem decide_not_found_witness:
  "getTeamById state0 ''missing-id'' = None \<and>
   decide env0 state0 ''missing-id'' VERIFIED None ''admin@example.org''
     = (Response 404 (jsonError ''Team not found''), state0)"
proof -
  have h: "getTeamById state0 ''missing-id'' = None"
    by (simp add: getTeamById_def state0_def team0_def)
  show ?thesis using h decide_not_found [OF h] by simp
qed

subsection \<open>C10: the frame of updateTeamStatus\<close>

text \<open>
  Claim C10. For every team row and every call of \<open>updateTeamStatus\<close>, the row after the
  call is the row before it except for \<open>status\<close>, \<open>verificationNote\<close>, \<open>updatedAt\<close> and,
  when the new status is VERIFIED, \<open>verifiedAt\<close> and \<open>verifiedBy\<close>; rows of other teams
  are untouched. In particular a REJECTED decision leaves \<open>verifiedAt\<close>, \<open>verifiedBy\<close>,
  \<open>qrCodeUrl\<close>, \<open>paymentProofUrl\<close>, \<open>memberCount\<close> and every registration field as they
  were. The other tables and the traces are not touched either.
\<close>

theorem updateTeamStatus_frame:
  "list_all2
     (\<lambda>t t'. if id_col t \<noteq> i then t' = t
              else if st = VERIFIED
                then t' = t\<lparr>status := status t', verificationNote := verificationNote t',
                            updatedAt := updatedAt t', verifiedAt := verifiedAt t',
                            verifiedBy := verifiedBy t'\<rparr>
                else t' = t\<lparr>status := status t', verificationNote := verificationNote t',
                            updatedAt := updatedAt t'\<rparr>)
     (teams s) (teams (snd (updateTeamStatus n1 n2 s i st note vb)))
   \<and> snd (updateTeamStatus n1 n2 s i st note vb)
       = s\<lparr>teams := teams (snd (updateTeamStatus n1 n2 s i st note vb))\<rparr>"
  by (simp add: updateTeamStatus_def Let_def list_all2_map2 list_all2_same
      applyStatusUpdates_def)

theorem updateTeamStatus_frame_witness:
  "teams (snd (updateTeamStatus 5000 5001 state0 ''t1'' REJECTED (Some ''Incomplete'') (Some ''admin@example.org'')))
     = [team0\<lparr>status := REJECTED, verificationNote := Some ''Incomplete'', updatedAt := 5000\<rparr>]
   \<and> list_all2 (\<lambda>t t'. verifiedAt t' = verifiedAt t \<and> verifiedBy t' = verifiedBy t
                   \<and> qrCodeUrl t' = qrCodeUrl t \<and> paymentProofUrl t' = paymentProofUrl t
                   \<and> memberCount t' = memberCount t)
       (teams state0)
       (teams (snd (updateTeamStatus 5000 5001 state0 ''t1'' REJECTED (Some ''Incomplete'') (Some ''admin@example.org''))))"
  using updateTeamStatus_frame [of "''t1''" REJECTED state0 5000 5001 "Some ''Incomplete''" "Some ''admin@example.org''"]
  by (simp add: updateTeamStatus_def Let_def applyStatusUpdates_def state0_def team0_def)

subsection \<open>C2: verifying a pending team\<close>

text \<open>
  Claim C2 as written (after VERIFY every PENDING team reads back with a non-null
  \<open>qrCodeUrl\<close>) fails. The status and the audit entry are written before
  \<open>generateQRCode\<close> is called; when that call throws, the fresh team reads back VERIFIED
  with \<open>qrCodeUrl\<close> still null, and the answer is 500.
\<close>

theorem decide_verify_qr_failure_counterexample:
  "getTeamById state0 ''t1'' = Some team0 \<and> status team0 = PENDING
   \<and> fst (decide env_qrDown state0 ''t1'' VERIFIED (Some ''Welcome'') ''admin@example.org'')
       = Response 500 (jsonError ''Failed to update team status'')
   \<and> map_option status
        (getTeamById (snd (decide env_qrDown state0 ''t1'' VERIFIED (Some ''Welcome'')
                             ''admin@example.org'')) ''t1'')
       = Some VERIFIED
   \<and> map_option qrCodeUrl
        (getTeamById (snd (decide env_qrDown state0 ''t1'' VERIFIED (Some ''Welcome'')
                             ''admin@example.org'')) ''t1'')
       = Some None"
  by (simp add: state0_team team0_fields
      decide_VERIFIED_noqr(1) [OF state0_team env_qrDown_fields(3)]
      getTeamById_decide_VERIFIED_noqr [OF state0_team env_qrDown_fields(3)]
      applyStatusUpdates_def Let_def team0_def)

text \<open>
  Claim C2, amended. For every team with status PENDING, \<open>decide(id, VERIFY, note,
  actingAdmin)\<close> followed by a read of that team returns status VERIFIED, a non-null
  \<open>verifiedAt\<close>, \<open>verifiedBy\<close> equal to the acting admin (the e-mail address of the
  session, a non-empty string), \<open>verificationNote\<close> equal to the given note, and exactly
  one new audit entry, with action TEAM_VERIFIED. The \<open>qrCodeUrl\<close> read back is non-null,
  the URL \<open>generateQRCode\<close> returned, provided that call returns, as it does in every run
  that answers 200; when it throws, \<open>qrCodeUrl\<close> keeps its stored value. The mail gateway
  plays no role here.
\<close>

theorem decide_verify_pending:
  assumes "getTeamById s i = Some t" and "status t = PENDING" and "adminEmail \<noteq> []"
  shows "(\<exists>t'. getTeamById (snd (decide e s i VERIFIED note adminEmail)) i = Some t'
            \<and> status t' = VERIFIED
            \<and> verifiedAt t' = Some (dateNow2 e)
            \<and> verifiedBy t' = Some adminEmail
            \<and> (\<forall>n. note = Some n \<longrightarrow> verificationNote t' = Some n)
            \<and> (verificationNote t = None \<longrightarrow> verificationNote t' = note)
            \<and> (\<forall>url. qrUpload e (qrData i t) = Some url \<longrightarrow> qrCodeUrl t' = Some url)
            \<and> (qrUpload e (qrData i t) = None \<longrightarrow> qrCodeUrl t' = qrCodeUrl t))
       \<and> auditLogs (snd (decide e s i VERIFIED note adminEmail)) =
           auditLogs s @ [\<lparr>a_teamId = i, action = ''TEAM_VERIFIED'',
                           performedBy = adminEmail, details = note\<rparr>]
       \<and> (fst (decide e s i VERIFIED note adminEmail)
             = Response 200 (jsonMessage ''Team status updated successfully'')
           \<longrightarrow> qrUpload e (qrData i t) \<noteq> None)"
proof (cases "qrUpload e (qrData i t)")
  case None
  show ?thesis
    using assms(3)
    by (simp add: None getTeamById_decide_VERIFIED_noqr [OF assms(1) None]
        decide_VERIFIED_noqr(1,3) [OF assms(1) None]
        applyStatusUpdates_def verifiedBy_or_admin_def Let_def split: option.splits)
next
  case (Some url)
  show ?thesis
    using assms(3)
    by (simp add: Some getTeamById_decide_VERIFIED [OF assms(1) Some]
        decide_VERIFIED_ok(3) [OF assms(1) Some refl]
        applyStatusUpdates_def verifiedBy_or_admin_def Let_def split: option.splits)
qed

theorem decide_verify_pending_witness:
  "getTeamById state0 ''t1'' = Some team0 \<and> status team0 = PENDING
   \<and> ''admin@example.org'' \<noteq> []
   \<and> verificationNote team0 = None
   \<and> qrUpload env0 (qrData ''t1'' team0) = Some ''https://img.example/qr.png''
   \<and> fst (decide env0 state0 ''t1'' VERIFIED (Some ''Welcome'') ''admin@example.org'')
       = Response 200 (jsonMessage ''Team status updated successfully'')
   \<and> getTeamById (snd (decide env0 state0 ''t1'' VERIFIED (Some ''Welcome'') ''admin@example.org'')) ''t1''
       = Some (team0\<lparr>status := VERIFIED, verificationNote := Some ''Welcome'',
                     qrCodeUrl := Some ''https://img.example/qr.png'',
                     verifiedAt := Some 5001, verifiedBy := Some ''admin@example.org'',
                     updatedAt := 5000\<rparr>)
   \<and> auditLogs (snd (decide env0 state0 ''t1'' VERIFIED (Some ''Welcome'') ''admin@example.org''))
       = [\<lparr>a_teamId = ''t1'', action = ''TEAM_REGISTERED'', performedBy = ''system'',
           details = Some ''Team registered via website''\<rparr>,
          \<lparr>a_teamId = ''t1'', action = ''TEAM_VERIFIED'', performedBy = ''admin@example.org'',
           details = Some ''Welcome''\<rparr>]
   \<and> qrUpload env_qrDown (qrData ''t1'' team0) = None
   \<and> getTeamById (snd (decide env_qrDown state0 ''t1'' VERIFIED (Some ''Welcome'') ''admin@example.org'')) ''t1''
       = Some (team0\<lparr>status := VERIFIED, verificationNote := Some ''Welcome'',
                     verifiedAt := Some 5001, verifiedBy := Some ''admin@example.org'',
                     updatedAt := 5000\<rparr>)"
proof -
  have a: "''admin@example.org'' \<noteq> []" by simp
  show ?thesis
    using decide_verify_pending [OF state0_team team0_fields(3) a, of env0 "Some ''Welcome''"]
      decide_verify_pending [OF state0_team team0_fields(3) a, of env_qrDown "Some ''Welcome''"]
    by (simp add: state0_team team0_fields env0_qr state0_fields env_qrDown_fields
        getTeamById_decide_VERIFIED [OF state0_team env0_qr]
        getTeamById_decide_VERIFIED_noqr [OF state0_team env_qrDown_fields(3)]
        decide_VERIFIED_ok(1) [OF state0_team env0_qr refl]
        applyStatusUpdates_def verifiedBy_or_admin_def Let_def env0_fields)
qed

subsection \<open>C4: the check-in token\<close>

text \<open>
  Claim C4. The check-in token built on VERIFY is a pure function of the team snapshot:
  it is the JSON text of exactly the fields \<open>teamId\<close>, \<open>teamName\<close>, \<open>category\<close> and
  \<open>verified: true\<close>, in this order. Read as JSON it gives back the id, the team name and
  the category, whatever characters they hold, so two snapshots have the same token only
  if they agree on the three; where no character needs an escape the text is the one
  written out below. It contains no timestamp: two snapshots with the same id, name and
  category give the same bytes whatever their other fields are. And it is the payload
  the handler hands to \<open>generateQRCode\<close>, whatever the clock and the outside world are.
\<close>

theorem checkInToken_pure:
  \<open>parseCheckInToken (qrData i t) = Some (i, teamName t, category t)
   \<and> ((\<forall>c\<in>set (i @ teamName t). \<not> needsEscape c) \<longrightarrow>
        qrData i t =
          ''{"teamId":"'' @ i @ ''","teamName":"'' @ teamName t @ ''","category":"'' @
          (case category t of SOFTWARE \<Rightarrow> ''SOFTWARE'' | HARDWARE \<Rightarrow> ''HARDWARE'') @
          ''","verified":true}'')
   \<and> (\<forall>i' t'. qrData i' t' = qrData i t \<longrightarrow>
         i' = i \<and> teamName t' = teamName t \<and> category t' = category t)
   \<and> (\<forall>t'. teamName t' = teamName t \<and> category t' = category t \<longrightarrow> qrData i t' = qrData i t)
   \<and> (getTeamById s i = Some t \<longrightarrow>
        qrCalls (snd (decide e s i VERIFIED note a)) = qrCalls s @ [qrData i t])\<close>
proof -
  have p1: "parseCheckInToken (qrData i t) = Some (i, teamName t, category t)"
    by (rule parse_qrData)
  have p2: \<open>(\<forall>c\<in>set (i @ teamName t). \<not> needsEscape c) \<longrightarrow>
        qrData i t =
          ''{"teamId":"'' @ i @ ''","teamName":"'' @ teamName t @ ''","category":"'' @
          (case category t of SOFTWARE \<Rightarrow> ''SOFTWARE'' | HARDWARE \<Rightarrow> ''HARDWARE'') @
          ''","verified":true}''\<close>
  proof
    assume plain: "\<forall>c\<in>set (i @ teamName t). \<not> needsEscape c"
    then have "concat (map quoteJSONChar i) = i"
      and "concat (map quoteJSONChar (teamName t)) = teamName t"
      by (simp_all add: quote_unescaped)
    then show \<open>qrData i t =
          ''{"teamId":"'' @ i @ ''","teamName":"'' @ teamName t @ ''","category":"'' @
          (case category t of SOFTWARE \<Rightarrow> ''SOFTWARE'' | HARDWARE \<Rightarrow> ''HARDWARE'') @
          ''","verified":true}''\<close>
      by (cases "category t") (simp_all add: qrData_layout)
  qed
  have p3: "\<forall>i' t'. qrData i' t' = qrData i t \<longrightarrow>
         i' = i \<and> teamName t' = teamName t \<and> category t' = category t"
  proof (intro allI impI)
    fix i' :: string and t' :: team
    assume "qrData i' t' = qrData i t"
    then have "parseCheckInToken (qrData i' t') = parseCheckInToken (qrData i t)"
      by simp
    then show "i' = i \<and> teamName t' = teamName t \<and> category t' = category t"
      by (simp add: parse_qrData)
  qed
  have p4: "\<forall>t'. teamName t' = teamName t \<and> category t' = category t \<longrightarrow> qrData i t' = qrData i t"
    by (simp add: qrData_def)
  have p5: "getTeamById s i = Some t \<longrightarrow>
        qrCalls (snd (decide e s i VERIFIED note a)) = qrCalls s @ [qrData i t]"
    by (simp add: decide_qrCalls_VERIFIED)
  show ?thesis
    by (rule conjI [OF p1 conjI [OF p2 conjI [OF p3 conjI [OF p4 p5]]]])
qed

theorem checkInToken_pure_witness:
  \<open>qrData ''t1'' team0 = ''{"teamId":"t1","teamName":"Alpha","category":"SOFTWARE","verified":true}''
   \<and> parseCheckInToken ''{"teamId":"t1","teamName":"Alpha","category":"SOFTWARE","verified":true}''
       = Some (''t1'', ''Alpha'', SOFTWARE)
   \<and> qrData ''t2'' teamQ =
       ''{"teamId":"t2","teamName":"Q'' @ [CHR 0x5C, CHR 0x22] @ ''u'' @ [CHR 0x5C, CHR 0x5C] @
       ''o'' @ [CHR 0x5C] @ ''nt'' @ [CHR 0x5C] @ ''u0001e","category":"HARDWARE","verified":true}''
   \<and> parseCheckInToken (qrData ''t2'' teamQ)
       = Some (''t2'', [CHR ''Q'', CHR 0x22, CHR ''u'', CHR 0x5C, CHR ''o'', CHR 0x0A,
                        CHR ''t'', CHR 0x01, CHR ''e''], HARDWARE)
   \<and> teamName (team0\<lparr>updatedAt := 9999, verifiedAt := Some 7\<rparr>) = teamName team0
   \<and> category (team0\<lparr>updatedAt := 9999, verifiedAt := Some 7\<rparr>) = category team0
   \<and> qrData ''t1'' (team0\<lparr>updatedAt := 9999, verifiedAt := Some 7\<rparr>) = qrData ''t1'' team0
   \<and> getTeamById state0 ''t1'' = Some team0
   \<and> qrCalls (snd (decide env0 state0 ''t1'' VERIFIED None ''admin@example.org''))
       = [''{"teamId":"t1","teamName":"Alpha","category":"SOFTWARE","verified":true}'']\<close>
proof -
  have q: \<open>qrData ''t2'' teamQ =
       ''{"teamId":"t2","teamName":"Q'' @ [CHR 0x5C, CHR 0x22] @ ''u'' @ [CHR 0x5C, CHR 0x5C] @
       ''o'' @ [CHR 0x5C] @ ''nt'' @ [CHR 0x5C] @ ''u0001e","category":"HARDWARE","verified":true}''\<close>
    by (simp add: qrData_def teamQ_def team0_def quoteJSONString_def quoteJSONChar_def
        category_text_def hexDigit_def)
  have tq: "teamName teamQ = [CHR ''Q'', CHR 0x22, CHR ''u'', CHR 0x5C, CHR ''o'', CHR 0x0A,
                              CHR ''t'', CHR 0x01, CHR ''e'']" "category teamQ = HARDWARE"
    by (simp_all add: teamQ_def)
  have plain: "\<forall>c\<in>set (''t1'' @ teamName team0). \<not> needsEscape c"
    by (simp add: team0_fields needsEscape_def)
  have lit: \<open>qrData ''t1'' team0
              = ''{"teamId":"t1","teamName":"Alpha","category":"SOFTWARE","verified":true}''\<close>
    using checkInToken_pure [of "''t1''" team0 state0 env0 None "''admin@example.org''",
        THEN conjunct2, THEN conjunct1] plain
    by (simp add: team0_fields)
  have par: \<open>parseCheckInToken
               ''{"teamId":"t1","teamName":"Alpha","category":"SOFTWARE","verified":true}''
             = Some (''t1'', ''Alpha'', SOFTWARE)\<close>
    using checkInToken_pure [of "''t1''" team0 state0 env0 None "''admin@example.org''",
        THEN conjunct1]
    unfolding lit by (simp add: team0_fields)
  have calls: \<open>qrCalls (snd (decide env0 state0 ''t1'' VERIFIED None ''admin@example.org''))
       = [''{"teamId":"t1","teamName":"Alpha","category":"SOFTWARE","verified":true}'']\<close>
    using checkInToken_pure [of "''t1''" team0 state0 env0 None "''admin@example.org''",
        THEN conjunct2, THEN conjunct2, THEN conjunct2, THEN conjunct2]
    unfolding lit by (simp add: state0_team state0_fields)
  have parQ: "parseCheckInToken (qrData ''t2'' teamQ)
       = Some (''t2'', [CHR ''Q'', CHR 0x22, CHR ''u'', CHR 0x5C, CHR ''o'', CHR 0x0A,
                        CHR ''t'', CHR 0x01, CHR ''e''], HARDWARE)"
    using checkInToken_pure [of "''t2''" teamQ state0 env0 None "''admin@example.org''",
        THEN conjunct1]
    by (simp add: tq)
  have same: "qrData ''t1'' (team0\<lparr>updatedAt := 9999, verifiedAt := Some 7\<rparr>) = qrData ''t1'' team0"
    using checkInToken_pure [of "''t1''" team0 state0 env0 None "''admin@example.org''",
        THEN conjunct2, THEN conjunct2, THEN conjunct2, THEN conjunct1, rule_format,
        of "team0\<lparr>updatedAt := 9999, verifiedAt := Some 7\<rparr>"]
    by simp
  show ?thesis
    using lit par q parQ calls
    by (simp add: state0_team team0_fields same)
qed

subsection \<open>C5: the acceptance mail\<close>

text \<open>
  Claim C5 as written (for every team verified exactly one notification is dispatched)
  fails. The team is written VERIFIED before \<open>generateQRCode\<close> is called; when that call
  throws, the handler answers 500 and no message is posted, although the team of three
  reads back VERIFIED.
\<close>

theorem verify_without_qr_counterexample:
  "getTeamById state0 ''t1'' = Some team0
   \<and> length (getMembersByTeamId state0 ''t1'') = 3
   \<and> map_option status
        (getTeamById (snd (decide env_qrDown state0 ''t1'' VERIFIED None ''admin@example.org'')) ''t1'')
       = Some VERIFIED
   \<and> outbox (snd (decide env_qrDown state0 ''t1'' VERIFIED None ''admin@example.org'')) = []
   \<and> fst (decide env_qrDown state0 ''t1'' VERIFIED None ''admin@example.org'')
       = Response 500 (jsonError ''Failed to update team status'')"
  by (simp add: state0_team state0_fields
      decide_VERIFIED_noqr(1,4) [OF state0_team env_qrDown_fields(3)]
      getTeamById_decide_VERIFIED_noqr [OF state0_team env_qrDown_fields(3)])
     (simp add: getMembersByTeamId_def state0_def members0_def)

text \<open>
  Claim C5, amended. For every team verified with \<open>n\<close> members (the claim has
  \<open>2 \<le> n \<le> 4\<close>; the count plays no role), when \<open>generateQRCode\<close> returns, exactly one
  message is posted to the mail gateway; its recipients are exactly the \<open>n\<close> members'
  addresses, in the order of the member rows; its body shows the QR image inline (an
  \<open>img\<close> element whose source is the URL of the QR code); and it has one attachment, the
  calendar file, whose name ends in \<open>.ics\<close>. The message is posted once whether or not
  the gateway then accepts it. When \<open>generateQRCode\<close> throws, no message is posted.
\<close>

theorem verify_notifies_members:
  assumes "getTeamById s i = Some t" and "length (getMembersByTeamId s i) = n"
  shows \<open>(\<forall>url. qrUpload e (qrData i t) = Some url \<longrightarrow>
            (\<exists>m att. outbox (snd (decide e s i VERIFIED note a)) = outbox s @ [m]
               \<and> to m = map email (getMembersByTeamId s i)
               \<and> length (to m) = n
               \<and> sublist (''<img src="'' @ url @ ''"'') (htmlContent m)
               \<and> attachments m = [att]
               \<and> content att = toBase64 e (generateICS e (teamName t) (projectTitle t))
               \<and> name att = ''innovate-x-2025.ics''
               \<and> suffix ''.ics'' (name att)))
         \<and> (qrUpload e (qrData i t) = None \<longrightarrow>
              outbox (snd (decide e s i VERIFIED note a)) = outbox s)\<close>
proof (intro conjI allI impI)
  fix url
  assume qr: "qrUpload e (qrData i t) = Some url"
  let ?att = "\<lparr>content = toBase64 e (generateICS e (teamName t) (projectTitle t)),
               name = ''innovate-x-2025.ics''\<rparr>"
  let ?m = "\<lparr>to = map email (getMembersByTeamId s i), subject = acceptanceSubject,
             htmlContent = acceptanceHtml (teamName t) url note, attachments = [?att]\<rparr>"
  have out: "outbox (snd (decide e s i VERIFIED note a)) = outbox s @ [?m]"
    by (rule decide_VERIFIED_ok(4) [OF assms(1) qr refl])
  have \<open>acceptanceHtml (teamName t) url note =
          (acceptanceHtml_1 @ teamName t @ acceptanceHtml_2 @ ''          '')
          @ (''<img src="'' @ url @ ''"'')
          @ ('' alt="Team QR Code" style="width: 250px; height: 250px; border: 2px solid #00FF85; border-radius: 8px;"/>\<newline>''
             @ acceptanceHtml_3 @ noteBlock ''Note from organizers:'' note @ acceptanceHtml_4)\<close>
    by (simp add: acceptanceHtml_def)
  then have img: \<open>sublist (''<img src="'' @ url @ ''"'') (acceptanceHtml (teamName t) url note)\<close>
    unfolding sublist_def by blast
  have sfx: "suffix ''.ics'' ''innovate-x-2025.ics''"
    by (simp add: suffix_def)
  show \<open>\<exists>m att. outbox (snd (decide e s i VERIFIED note a)) = outbox s @ [m]
               \<and> to m = map email (getMembersByTeamId s i)
               \<and> length (to m) = n
               \<and> sublist (''<img src="'' @ url @ ''"'') (htmlContent m)
               \<and> attachments m = [att]
               \<and> content att = toBase64 e (generateICS e (teamName t) (projectTitle t))
               \<and> name att = ''innovate-x-2025.ics''
               \<and> suffix ''.ics'' (name att)\<close>
    using out assms(2) img sfx by (intro exI [of _ ?m] exI [of _ ?att]) simp
next
  assume "qrUpload e (qrData i t) = None"
  then show "outbox (snd (decide e s i VERIFIED note a)) = outbox s"
    by (rule decide_VERIFIED_noqr(4) [OF assms(1)])
qed

theorem verify_notifies_members_witness:
  \<open>getTeamById state0 ''t1'' = Some team0
   \<and> length (getMembersByTeamId state0 ''t1'') = 3
   \<and> qrUpload env0 (qrData ''t1'' team0) = Some ''https://img.example/qr.png''
   \<and> map to (outbox (snd (decide env0 state0 ''t1'' VERIFIED None ''admin@example.org'')))
       = [ [''asha@alpha.example'', ''bala@alpha.example'', ''chitra@alpha.example''] ]
   \<and> map attachments (outbox (snd (decide env0 state0 ''t1'' VERIFIED None ''admin@example.org'')))
       = [ [\<lparr>content = ''Main Auditorium, Your College;CONFIRMED'', name = ''innovate-x-2025.ics''\<rparr>] ]
   \<and> map (\<lambda>m. sublist ''<img src="https://img.example/qr.png"'' (htmlContent m))
        (outbox (snd (decide env0 state0 ''t1'' VERIFIED None ''admin@example.org'')))
       = [True]
   \<and> qrUpload env_qrDown (qrData ''t1'' team0) = None
   \<and> outbox (snd (decide env_qrDown state0 ''t1'' VERIFIED None ''admin@example.org'')) = []\<close>
proof -
  have n: "length (getMembersByTeamId state0 ''t1'') = 3"
    by (simp add: getMembersByTeamId_def state0_def members0_def)
  have ics: "generateICS env0 tn pt = ''Main Auditorium, Your College;CONFIRMED''" for tn pt
    by (simp add: generateICS_def env0_fields icsAttributes_def)
  show ?thesis
    using verify_notifies_members [OF state0_team n, of env0 None "''admin@example.org''"]
      verify_notifies_members [OF state0_team n, of env_qrDown None "''admin@example.org''"]
    by (auto simp add: state0_team env0_qr n state0_fields state0_members env0_fields ics
        team0_fields env_qrDown_fields)
qed

subsection \<open>C6: the rejection mail\<close>

text \<open>
  Claim C6. For every team rejected through \<open>decide(id, REJECT, note)\<close>, exactly one
  message is posted to the mail gateway; its only recipient is the team's
  \<open>contactEmail\<close> (the member addresses are not used); it has no attachment; and its body
  contains the rejection note, as the paragraph "Reason: note" when a non-empty note
  is given.
\<close>

theorem reject_notifies_contact_only:
  assumes "getTeamById s i = Some t"
  shows \<open>\<exists>m. outbox (snd (decide e s i REJECTED note a)) = outbox s @ [m]
           \<and> to m = [contactEmail t]
           \<and> attachments m = []
           \<and> htmlContent m = rejectionHtml (teamName t) note
           \<and> (\<forall>n. note = Some n \<longrightarrow> sublist n (htmlContent m))
           \<and> (\<forall>n. note = Some n \<and> n \<noteq> [] \<longrightarrow>
                 sublist (''<p><strong>Reason:</strong> '' @ n @ ''</p>'') (htmlContent m))\<close>
proof -
  let ?m = "\<lparr>to = [contactEmail t], subject = ''Innovate-X 2025 Registration Update'',
             htmlContent = rejectionHtml (teamName t) note, attachments = []\<rparr>"
  have out: "outbox (snd (decide e s i REJECTED note a)) = outbox s @ [?m]"
    by (rule decide_other_ok(4) [OF assms _ refl]) simp
  have para: \<open>sublist (''<p><strong>Reason:</strong> '' @ n @ ''</p>'')
                 (rejectionHtml (teamName t) note)\<close>
    if "note = Some n" and "n \<noteq> []" for n
  proof -
    have \<open>rejectionHtml (teamName t) note =
            (rejectionHtml_1 @ teamName t @ rejectionHtml_2)
            @ (''<p><strong>Reason:</strong> '' @ n @ ''</p>'') @ rejectionHtml_3\<close>
      using that by (simp add: rejectionHtml_def noteBlock_def)
    then show ?thesis unfolding sublist_def by blast
  qed
  have plain: "sublist n (rejectionHtml (teamName t) note)" if "note = Some n" for n
  proof (cases "n = []")
    case True
    then show ?thesis by simp
  next
    case False
    have "sublist n (''<p><strong>Reason:</strong> '' @ n @ ''</p>'')"
      by (rule sublist_appendI)
    then show ?thesis
      using para [OF that False] by (rule sublist_order.order.trans)
  qed
  show ?thesis
    using out para plain by (intro exI [of _ ?m]) simp
qed

theorem reject_notifies_contact_only_witness:
  \<open>getTeamById state0 ''t1'' = Some team0
   \<and> map to (outbox (snd (decide env0 state0 ''t1'' REJECTED (Some ''Payment proof unreadable'')
                              ''admin@example.org'')))
       = [ [''lead@alpha.example''] ]
   \<and> map attachments (outbox (snd (decide env0 state0 ''t1'' REJECTED
                                       (Some ''Payment proof unreadable'') ''admin@example.org'')))
       = [ [] ]
   \<and> map (\<lambda>m. sublist ''<p><strong>Reason:</strong> Payment proof unreadable</p>''
                  (htmlContent m))
        (outbox (snd (decide env0 state0 ''t1'' REJECTED (Some ''Payment proof unreadable'')
                        ''admin@example.org'')))
       = [True]\<close>
  using reject_notifies_contact_only [OF state0_team,
      of env0 "Some ''Payment proof unreadable''" "''admin@example.org''"]
  by (auto simp add: state0_team state0_fields team0_fields)

subsection \<open>C8: a failing mail gateway\<close>

text \<open>
  Claim C8. If the notification dispatch fails after the status write has been
  committed, the transition is not rolled back: the caller gets the error answer (500),
  the message was posted once, and a read of the team still returns the status that was
  written (with \<open>verifiedAt\<close> and \<open>verifiedBy\<close> on VERIFY); the audit entry appended before
  the dispatch is still there. On VERIFY the dispatch is reached when \<open>generateQRCode\<close>
  has returned.
\<close>

theorem notification_failure_keeps_transition:
  assumes "getTeamById s i = Some t" and "\<forall>m. \<not> brevoOk e m"
    and "st = VERIFIED \<longrightarrow> qrUpload e (qrData i t) \<noteq> None"
  shows "fst (decide e s i st note a) = Response 500 (jsonError ''Failed to update team status'')
       \<and> length (outbox (snd (decide e s i st note a))) = Suc (length (outbox s))
       \<and> (\<exists>t'. getTeamById (snd (decide e s i st note a)) i = Some t' \<and> status t' = st
             \<and> (st = VERIFIED \<longrightarrow> verifiedAt t' = Some (dateNow2 e)
                   \<and> verifiedBy t' = Some (verifiedBy_or_admin (Some a))))
       \<and> auditLogs (snd (decide e s i st note a)) =
           auditLogs s @ [\<lparr>a_teamId = i,
                           action = (if st = VERIFIED then ''TEAM_VERIFIED'' else ''TEAM_REJECTED''),
                           performedBy = a, details = note\<rparr>]"
proof (intro conjI)
  show "fst (decide e s i st note a) = Response 500 (jsonError ''Failed to update team status'')"
  proof (cases "st = VERIFIED")
    case False
    show ?thesis
      using assms(2) by (simp add: decide_other_ok(1) [OF assms(1) False refl])
  next
    case True
    with assms(3) obtain url where "qrUpload e (qrData i t) = Some url" by auto
    then show ?thesis
      using assms(2) True by (simp add: decide_VERIFIED_ok(1) [OF assms(1) _ refl])
  qed
  show "length (outbox (snd (decide e s i st note a))) = Suc (length (outbox s))"
  proof (cases "st = VERIFIED")
    case False
    show ?thesis
      by (simp add: decide_other_ok(4) [OF assms(1) False refl])
  next
    case True
    with assms(3) obtain url where "qrUpload e (qrData i t) = Some url" by auto
    then show ?thesis
      using True by (simp add: decide_VERIFIED_ok(4) [OF assms(1) _ refl])
  qed
  show "\<exists>t'. getTeamById (snd (decide e s i st note a)) i = Some t' \<and> status t' = st
             \<and> (st = VERIFIED \<longrightarrow> verifiedAt t' = Some (dateNow2 e)
                   \<and> verifiedBy t' = Some (verifiedBy_or_admin (Some a)))"
    by (rule decide_status_written [OF assms(1)])
  show "auditLogs (snd (decide e s i st note a)) =
           auditLogs s @ [\<lparr>a_teamId = i,
                           action = (if st = VERIFIED then ''TEAM_VERIFIED'' else ''TEAM_REJECTED''),
                           performedBy = a, details = note\<rparr>]"
    by (rule decide_audit_appended [OF assms(1)])
qed

theorem notification_failure_keeps_transition_witness:
  "getTeamById state0 ''t1'' = Some team0 \<and> (\<forall>m. \<not> brevoOk env_mailDown m)
   \<and> qrUpload env_mailDown (qrData ''t1'' team0) \<noteq> None
   \<and> fst (decide env_mailDown state0 ''t1'' VERIFIED None ''admin@example.org'')
       = Response 500 (jsonError ''Failed to update team status'')
   \<and> map_option status
        (getTeamById (snd (decide env_mailDown state0 ''t1'' VERIFIED None ''admin@example.org'')) ''t1'')
       = Some VERIFIED
   \<and> map_option verifiedBy
        (getTeamById (snd (decide env_mailDown state0 ''t1'' VERIFIED None ''admin@example.org'')) ''t1'')
       = Some (Some ''admin@example.org'')
   \<and> map action (auditLogs (snd (decide env_mailDown state0 ''t1'' VERIFIED None ''admin@example.org'')))
       = [''TEAM_REGISTERED'', ''TEAM_VERIFIED'']
   \<and> length (outbox (snd (decide env_mailDown state0 ''t1'' VERIFIED None ''admin@example.org''))) = 1"
proof -
  have down: "\<forall>m. \<not> brevoOk env_mailDown m"
    by (simp add: env_mailDown_fields)
  have qr: "VERIFIED = VERIFIED \<longrightarrow> qrUpload env_mailDown (qrData ''t1'' team0) \<noteq> None"
    by (simp add: env_mailDown_qr)
  show ?thesis
    using notification_failure_keeps_transition [OF state0_team down qr, of None "''admin@example.org''"]
    by (auto simp add: state0_team env_mailDown_fields env_mailDown_qr state0_fields
        verifiedBy_or_admin_def)
qed

subsection \<open>C1: a second decision on the same team\<close>

text \<open>
  Claim C1 as written (a second decision is rejected with InvalidStateTransition and has
  no side effect) fails. After a first verification the team is VERIFIED; a second
  call, VERIFY or REJECT, is answered 200 like the first: it requests another QR code,
  posts another message, appends another audit entry, and a REJECT turns the VERIFIED
  team into a REJECTED one.
\<close>

theorem decide_second_call_counterexample:
  "map_option status (getTeamById state1 ''t1'') = Some VERIFIED
   \<and> length (outbox state1) = 1 \<and> length (qrCalls state1) = 1
   \<and> fst (decide env0 state1 ''t1'' VERIFIED (Some ''Welcome'') ''admin@example.org'')
       = Response 200 (jsonMessage ''Team status updated successfully'')
   \<and> length (outbox (snd (decide env0 state1 ''t1'' VERIFIED (Some ''Welcome'') ''admin@example.org''))) = 2
   \<and> length (qrCalls (snd (decide env0 state1 ''t1'' VERIFIED (Some ''Welcome'') ''admin@example.org''))) = 2
   \<and> map action (auditLogs (snd (decide env0 state1 ''t1'' VERIFIED (Some ''Welcome'') ''admin@example.org'')))
       = [''TEAM_REGISTERED'', ''TEAM_VERIFIED'', ''TEAM_VERIFIED'']
   \<and> fst (decide env0 state1 ''t1'' REJECTED None ''admin@example.org'')
       = Response 200 (jsonMessage ''Team status updated successfully'')
   \<and> map_option status
        (getTeamById (snd (decide env0 state1 ''t1'' REJECTED None ''admin@example.org'')) ''t1'')
       = Some REJECTED
   \<and> length (outbox (snd (decide env0 state1 ''t1'' REJECTED None ''admin@example.org''))) = 2"
proof -
  let ?t1 = "(applyStatusUpdates (dateNow1 env0) (dateNow2 env0) VERIFIED (Some ''Welcome'')
                (Some ''admin@example.org'') team0)\<lparr>qrCodeUrl := Some ''https://img.example/qr.png''\<rparr>"
  have g: "getTeamById state1 ''t1'' = Some ?t1"
    unfolding state1_def by (rule getTeamById_decide_VERIFIED [OF state0_team env0_qr])
  have o1: "length (outbox state1) = 1"
    unfolding state1_def
    by (simp add: decide_VERIFIED_ok(4) [OF state0_team env0_qr refl] state0_fields)
  have q1: "length (qrCalls state1) = 1"
    unfolding state1_def
    by (simp add: decide_VERIFIED_ok(5) [OF state0_team env0_qr refl] state0_fields)
  have a1: "map action (auditLogs state1) = [''TEAM_REGISTERED'', ''TEAM_VERIFIED'']"
    unfolding state1_def
    by (simp add: decide_VERIFIED_ok(3) [OF state0_team env0_qr refl] state0_fields)
  have rej: "REJECTED \<noteq> VERIFIED" by simp
  show ?thesis
    by (simp add: g o1 q1 a1 env0_fields
        decide_VERIFIED_ok(1,3,4,5) [OF g env0_qr refl]
        decide_other_ok(1,4) [OF g rej refl]
        getTeamById_decide_other [OF g rej])
qed

text \<open>
  Claim C1, amended. The handler has no guard on the stored status: its answer and its
  effects do not depend on it. For every existing team, whatever its status (PENDING,
  VERIFIED or REJECTED), a call is not answered NotFound, writes the requested status,
  appends one audit entry, requests a QR code on VERIFY, and posts one message (on a
  rejection always, on VERIFY when \<open>generateQRCode\<close> returns); it answers 200 when the
  QR code and the mail gateway work. So two calls in a row make two status writes and
  two notification dispatch attempts.
\<close>

theorem decide_has_no_status_guard:
  assumes "getTeamById s i = Some t"
  shows "decide e (overwriteStatus s i st0) i st note a = decide e s i st note a
       \<and> fst (decide e s i st note a) \<noteq> Response 404 (jsonError ''Team not found'')
       \<and> map_option status (getTeamById (snd (decide e s i st note a)) i) = Some st
       \<and> length (auditLogs (snd (decide e s i st note a))) = Suc (length (auditLogs s))
       \<and> (st = VERIFIED \<longrightarrow>
            length (qrCalls (snd (decide e s i st note a))) = Suc (length (qrCalls s)))
       \<and> (st \<noteq> VERIFIED \<or> qrUpload e (qrData i t) \<noteq> None \<longrightarrow>
            length (outbox (snd (decide e s i st note a))) = Suc (length (outbox s)))
       \<and> ((st \<noteq> VERIFIED \<or> qrUpload e (qrData i t) \<noteq> None) \<and> (\<forall>m. brevoOk e m) \<longrightarrow>
            fst (decide e s i st note a)
              = Response 200 (jsonMessage ''Team status updated successfully''))"
proof -
  have resp_out:
    "fst (decide e s i st note a) \<noteq> Response 404 (jsonError ''Team not found'')
     \<and> (st \<noteq> VERIFIED \<or> qrUpload e (qrData i t) \<noteq> None \<longrightarrow>
            length (outbox (snd (decide e s i st note a))) = Suc (length (outbox s)))
     \<and> ((st \<noteq> VERIFIED \<or> qrUpload e (qrData i t) \<noteq> None) \<and> (\<forall>m. brevoOk e m) \<longrightarrow>
            fst (decide e s i st note a)
              = Response 200 (jsonMessage ''Team status updated successfully''))"
  proof (cases "st = VERIFIED")
    case False
    show ?thesis
      by (simp add: False decide_other_ok(1,4) [OF assms False refl])
  next
    case True
    show ?thesis
    proof (cases "qrUpload e (qrData i t)")
      case None
      show ?thesis
        by (simp add: True None decide_VERIFIED_noqr(1) [OF assms None])
    next
      case (Some url)
      show ?thesis
        by (simp add: True Some decide_VERIFIED_ok(1,4) [OF assms Some refl])
    qed
  qed
  have written: "map_option status (getTeamById (snd (decide e s i st note a)) i) = Some st"
    using decide_status_written [OF assms, of e st "note" a] by auto
  have audit: "length (auditLogs (snd (decide e s i st note a))) = Suc (length (auditLogs s))"
    by (simp add: decide_audit_appended [OF assms])
  have qr: "st = VERIFIED \<longrightarrow>
            length (qrCalls (snd (decide e s i st note a))) = Suc (length (qrCalls s))"
    by (simp add: decide_qrCalls_VERIFIED [OF assms])
  show ?thesis
    using resp_out written audit qr
    by (simp add: decide_ignores_stored_status)
qed

theorem decide_has_no_status_guard_witness:
  "(\<exists>t. getTeamById state1 ''t1'' = Some t \<and> status t = VERIFIED
        \<and> qrUpload env0 (qrData ''t1'' t) \<noteq> None)
   \<and> (\<forall>m. brevoOk env0 m)
   \<and> decide env0 (overwriteStatus state1 ''t1'' PENDING) ''t1'' VERIFIED None ''admin@example.org''
       = decide env0 state1 ''t1'' VERIFIED None ''admin@example.org''
   \<and> fst (decide env0 state1 ''t1'' VERIFIED None ''admin@example.org'')
       = Response 200 (jsonMessage ''Team status updated successfully'')
   \<and> length (outbox (snd (decide env0 state1 ''t1'' VERIFIED None ''admin@example.org'')))
       = Suc (length (outbox state1))
   \<and> length (qrCalls (snd (decide env0 state1 ''t1'' VERIFIED None ''admin@example.org'')))
       = Suc (length (qrCalls state1))
   \<and> length (auditLogs (snd (decide env0 state1 ''t1'' VERIFIED None ''admin@example.org'')))
       = Suc (length (auditLogs state1))"
proof -
  let ?t1 = "(applyStatusUpdates (dateNow1 env0) (dateNow2 env0) VERIFIED (Some ''Welcome'')
                (Some ''admin@example.org'') team0)\<lparr>qrCodeUrl := Some ''https://img.example/qr.png''\<rparr>"
  have g: "getTeamById state1 ''t1'' = Some ?t1"
    unfolding state1_def by (rule getTeamById_decide_VERIFIED [OF state0_team env0_qr])
  show ?thesis
    using decide_has_no_status_guard [OF g, of env0 PENDING VERIFIED None "''admin@example.org''"]
    by (simp add: g env0_qr env0_fields)
qed

subsection \<open>C7: the calendar file\<close>




subsection \<open>C9: the client retries once\<close>



lemma requestHeaders_fetched [simp]:
  "requestHeaders (c\<lparr>fetched := rs\<rparr>) method d = requestHeaders c method d"
  by (simp add: requestHeaders_def)

lemma requestOf_fetched [simp]:
  "requestOf (c\<lparr>fetched := rs\<rparr>) method url d = requestOf c method url d"
  by (simp add: requestOf_def)

lemma requestOf_fetched_token [simp]:
  "requestOf (c\<lparr>fetched := rs, csrfToken := tok\<rparr>) method url d
     = requestOf (c\<lparr>csrfToken := tok\<rparr>) method url d"
  by (simp add: requestOf_def requestHeaders_def)

lemma requestOf_fields [simp]:
  "req_method (requestOf c method url d) = method" "req_url (requestOf c method url d) = url"
  by (simp_all add: requestOf_def)




end
